theory Spec2Isabelle
  imports Main
begin

section \<open>Values exchanged with the collaborators\<close>

text \<open>
  The orchestrator \<open>PaneviewComponent\<close> and the \<open>DefaultHeader\<close> of
  \<open>paneviewComponent.ts\<close> are embedded function by function. A TypeScript \<open>number\<close>
  that carries a pixel count or an index is an \<open>int\<close>; an optional field
  (\<open>x?: T\<close>, a value that may be \<open>undefined\<close> or \<open>null\<close>) is a \<open>T option\<close>;
  an object that is shared and mutated after it was handed out (a panel) lives in a
  store and is named by its reference.
\<close>

text \<open>
  Modelled from the spec: the declarations of \<open>Orientation\<close>, \<open>Sizing\<close> and
  \<open>LayoutPriority\<close> in \<open>splitview/core/splitview.ts\<close> are not among the sources. The
  code names the orientations \<open>HORIZONTAL\<close> and \<open>VERTICAL\<close> and the sizing mode
  \<open>Sizing.Distribute\<close>, the spec's "distribute remaining space evenly among all panes";
  a priority is one of the spec's "priority hints", which the code never inspects.
\<close>

datatype Orientation = HORIZONTAL | VERTICAL

datatype Sizing = Distribute

datatype LayoutPriority = LayoutPriority nat

text \<open>The type \<open>Sizing | number\<close> of the size handed to \<open>addPane\<close>.\<close>

datatype SizeArg = Number int | Mode Sizing

type_synonym ref = nat

text \<open>A parameter bag \<open>{ [key: string]: any }\<close>, as an association list.\<close>

type_synonym params = "(string \<times> string) list"

record DOMRect =
  rect_width :: int
  rect_height :: int

text \<open>
  The root element of the orchestrator. All the code reads of it is
  \<open>parentElement\<close> (absent when the element is detached) and the parent's
  \<open>getBoundingClientRect()\<close>, so the parent is given by its bounding box.
\<close>

record HTMLElement =
  parentElement :: "DOMRect option"

section \<open>The serialized document\<close>

record SerializedData =
  d_id :: string
  d_component :: string
  d_title :: string
  d_headerComponent :: "string option"
  d_params :: "params option"
  d_state :: "params option"

record SerializedPaneviewPanel =
  sp_snap :: "bool option"
  sp_priority :: "LayoutPriority option"
  sp_minimumSize :: "int option"
  sp_maximumSize :: "int option"
  sp_data :: SerializedData
  sp_size :: int
  sp_expanded :: "bool option"

record SerializedPaneview =
  sv_size :: int
  sv_views :: "SerializedPaneviewPanel list"

record AddPaneviewCompponentOptions =
  ao_id :: string
  ao_component :: string
  ao_headerComponent :: "string option"
  ao_params :: "params option"
  ao_minimumBodySize :: "int option"
  ao_maximumBodySize :: "int option"
  ao_isExpanded :: "bool option"
  ao_title :: string
  ao_index :: "int option"
  ao_size :: "int option"

section \<open>The Component Factory\<close>

datatype ResolutionError = ResolutionError string

text \<open>A registry maps a component kind to the constructor registered for it.\<close>

type_synonym registry = "string \<rightharpoonup> nat"

text \<open>
  Modelled from the spec: \<open>PaneviewComponentOptions\<close> of \<open>paneview/options.ts\<close> is not
  among the sources. These are the fields the code reads: the four registries, "read
  at call time", and the optional framework wrapper with its two factories
  \<open>header.createComponent\<close> and \<open>body.createComponent\<close>.
\<close>

record FrameworkWrapper =
  fw_header :: nat
  fw_body :: nat

record PaneviewComponentOptions =
  components :: "registry option"
  frameworkComponents :: "registry option"
  headerComponents :: "registry option"
  headerframeworkComponents :: "registry option"
  frameworkWrapper :: "FrameworkWrapper option"

text \<open>
  A renderer as the factory returns it: built for a panel id and a kind, either by the
  plain constructor registered for the kind or from the framework component registered
  for it, through the wrapper's \<open>createComponent\<close> when one was given.
\<close>

datatype Renderer =
    PlainRenderer string string nat
  | FrameworkRenderer string string nat "nat option"

text \<open>
  Modelled from the spec: \<open>createComponent\<close> of \<open>panel/componentFactory.ts\<close> is not
  among the sources. The spec gives it as
  \<open>resolve(id, kind, registryOfPlainComponents, registryOfFrameworkComponents,
  optionalWrapperOverride) -> Renderer\<close>, which "fails with a ResolutionError if kind
  matches no entry in either registry". A registry that is absent has no entry to match.
\<close>

definition createComponent ::
  "string \<Rightarrow> string \<Rightarrow> registry \<Rightarrow> registry option \<Rightarrow> nat option
    \<Rightarrow> ResolutionError + Renderer" where
  "createComponent cid kind plain framework wrapper =
     (case plain kind of
        Some c \<Rightarrow> Inr (PlainRenderer cid kind c)
      | None \<Rightarrow>
          (case (case framework of None \<Rightarrow> None | Some reg \<Rightarrow> reg kind) of
             Some f \<Rightarrow> Inr (FrameworkRenderer cid kind f wrapper)
           | None \<Rightarrow> Inl (ResolutionError kind)))"

text \<open>The idiom \<open>registry || {}\<close>.\<close>

definition orEmpty :: "registry option \<Rightarrow> registry" where
  "orEmpty r = (case r of None \<Rightarrow> Map.empty | Some reg \<Rightarrow> reg)"

text \<open>
  JavaScript truthiness of a \<open>string | undefined\<close>, as \<open>if (options.headerComponent)\<close>
  tests it: \<open>undefined\<close> and the empty string are falsy.
\<close>

definition truthy :: "string option \<Rightarrow> bool" where
  "truthy s = (case s of None \<Rightarrow> False | Some str \<Rightarrow> str \<noteq> [])"

text \<open>The coercion \<open>!!view.expanded\<close> of a \<open>boolean | undefined\<close>.\<close>

definition notnot :: "bool option \<Rightarrow> bool" where
  "notnot b = (case b of None \<Rightarrow> False | Some v \<Rightarrow> v)"

section \<open>The Default header\<close>

text \<open>
  Modelled from the spec: \<open>PanePanelApi\<close> (\<open>api/panePanelApi.ts\<close>), \<open>PaneviewApi\<close>
  (\<open>api/component.api.ts\<close>) and \<open>PanePanelInitParameter\<close> (\<open>paneview/paneviewPanel.ts\<close>)
  are not among the sources. The control surface of a panel is a handle on that panel
  and carries its reference; the container API is "a handle back to the container's
  public API", of the one orchestrator there is; the parameters of \<open>init\<close> are the
  fields the code passes.
\<close>

datatype PanePanelApi = PanePanelApi ref

datatype PaneviewApi = PaneviewApi

record PanePanelInitParameter =
  ip_params :: params
  ip_minimumBodySize :: "int option"
  ip_maximumBodySize :: "int option"
  ip_isExpanded :: "bool option"
  ip_title :: string
  ip_containerApi :: PaneviewApi

text \<open>
  \<open>class DefaultHeader\<close>: the field \<open>apiRef.api\<close>, \<open>null\<close> until \<open>init\<close>, and the
  text of its \<open>div\<close> element.
\<close>

record DefaultHeader =
  apiRef :: "PanePanelApi option"
  textContent :: string

definition DefaultHeader_new :: DefaultHeader where
  "DefaultHeader_new = \<lparr>apiRef = None, textContent = []\<rparr>"

definition DefaultHeader_init ::
  "DefaultHeader \<Rightarrow> PanePanelInitParameter \<Rightarrow> PanePanelApi \<Rightarrow> DefaultHeader" where
  "DefaultHeader_init h p api = h\<lparr>apiRef := Some api, textContent := ip_title p\<rparr>"

definition DefaultHeader_update :: "DefaultHeader \<Rightarrow> DefaultHeader" where
  "DefaultHeader_update h = h"

datatype IPaneHeaderPart = Default DefaultHeader | Custom Renderer

section \<open>The panel wrapper\<close>

text \<open>
  Modelled from the spec: the base class \<open>PaneviewPanel\<close> of
  \<open>paneview/paneviewPanel.ts\<close> is not among the sources. The record is
  \<open>class PaneFramework extends PaneviewPanel\<close>: first the six constructor options of
  \<open>PaneFramework\<close>, as the source has them, then the state of the base class. The spec
  gives a panel the expansion flag \<open>isExpanded\<close>, the optional pixel bounds
  \<open>minimumBodySize\<close> and \<open>maximumBodySize\<close> and the payload \<open>params\<close>, and the title
  that \<open>toJSON\<close> reports; "expanded defaults to false/absent meaning collapsed", and a
  panel has an empty title and no parameters before \<open>init\<close>.
\<close>

record PaneFramework =
  pf_id :: string
  pf_component :: string
  pf_headerComponent :: "string option"
  pf_body :: Renderer
  pf_header :: IPaneHeaderPart
  pf_orientation :: Orientation
  pf_title :: string
  pf_params :: params
  pf_minimumBodySize :: "int option"
  pf_maximumBodySize :: "int option"
  pf_expanded :: bool

definition PaneFramework_new ::
  "string \<Rightarrow> string \<Rightarrow> string option \<Rightarrow> IPaneHeaderPart \<Rightarrow> Renderer \<Rightarrow> Orientation
    \<Rightarrow> PaneFramework" where
  "PaneFramework_new pid component headerComponent header body orientation =
     \<lparr>pf_id = pid, pf_component = component, pf_headerComponent = headerComponent,
      pf_body = body, pf_header = header, pf_orientation = orientation,
      pf_title = [], pf_params = [], pf_minimumBodySize = None,
      pf_maximumBodySize = None, pf_expanded = False\<rparr>"

definition getBodyComponent :: "PaneFramework \<Rightarrow> Renderer" where
  "getBodyComponent p = pf_body p"

definition getHeaderComponent :: "PaneFramework \<Rightarrow> IPaneHeaderPart" where
  "getHeaderComponent p = pf_header p"

text \<open>
  Modelled from the spec: \<open>PaneviewPanel.init\<close> is not among the sources. "init(params)
  forwards to both renderers (header gets title/expansion/container-API context)": the
  panel keeps the parameters, the bounds and the expansion flag it is given (a flag
  that is \<open>undefined\<close> leaves the panel as it is) and initializes its header with them
  and with its own control surface. A renderer made by the factory keeps no state here.
\<close>

definition PaneviewPanel_init ::
  "ref \<Rightarrow> PanePanelInitParameter \<Rightarrow> PaneFramework \<Rightarrow> PaneFramework" where
  "PaneviewPanel_init self p panel =
     panel\<lparr>pf_title := ip_title p,
           pf_params := ip_params p,
           pf_minimumBodySize := ip_minimumBodySize p,
           pf_maximumBodySize := ip_maximumBodySize p,
           pf_expanded := (case ip_isExpanded p of None \<Rightarrow> pf_expanded panel | Some b \<Rightarrow> b),
           pf_header :=
             (case getHeaderComponent panel of
                Default h \<Rightarrow> Default (DefaultHeader_init h p (PanePanelApi self))
              | Custom r \<Rightarrow> Custom r)\<rparr>"

text \<open>
  Modelled from the spec: \<open>PaneviewPanel.toJSON\<close> is not among the sources. It "returns
  the minimal descriptor {id, componentKind, headerComponentKind?, title, params}".
\<close>

definition PaneviewPanel_toJSON :: "PaneFramework \<Rightarrow> SerializedData" where
  "PaneviewPanel_toJSON panel =
     \<lparr>d_id = pf_id panel, d_component = pf_component panel, d_title = pf_title panel,
      d_headerComponent = pf_headerComponent panel, d_params = Some (pf_params panel),
      d_state = None\<rparr>"

text \<open>Modelled from the spec: \<open>PaneviewPanel.isExpanded()\<close> reads the expansion flag.\<close>

definition isExpanded :: "PaneFramework \<Rightarrow> bool" where
  "isExpanded panel = pf_expanded panel"

text \<open>
  Modelled from the spec: \<open>PanePanelApi\<close> of \<open>api/panePanelApi.ts\<close> is not among the
  sources. It is the panel's control surface: \<open>isExpanded\<close> reads "the current
  expansion flag" of its panel and \<open>setExpanded\<close> writes it; the state is owned by the
  panel, which lives in the store.
\<close>

definition PanePanelApi_isExpanded :: "PanePanelApi \<Rightarrow> (ref \<Rightarrow> PaneFramework) \<Rightarrow> bool" where
  "PanePanelApi_isExpanded api st = (case api of PanePanelApi r \<Rightarrow> isExpanded (st r))"

definition PanePanelApi_setExpanded ::
  "PanePanelApi \<Rightarrow> bool \<Rightarrow> (ref \<Rightarrow> PaneFramework) \<Rightarrow> (ref \<Rightarrow> PaneFramework)" where
  "PanePanelApi_setExpanded api b st =
     (case api of PanePanelApi r \<Rightarrow> st(r := (st r)\<lparr>pf_expanded := b\<rparr>))"

text \<open>
  The click listener of \<open>DefaultHeader\<close>:
  \<open>this.apiRef.api?.setExpanded(!this.apiRef.api.isExpanded)\<close>. The optional chaining
  is the case on \<open>apiRef\<close>. The listener returns, with the new store, the accesses it
  made to the control surface, in the order it made them.
\<close>

datatype ApiAccess = GetExpanded PanePanelApi | SetExpanded PanePanelApi bool

definition DefaultHeader_click ::
  "DefaultHeader \<Rightarrow> (ref \<Rightarrow> PaneFramework) \<Rightarrow> ApiAccess list \<times> (ref \<Rightarrow> PaneFramework)" where
  "DefaultHeader_click h st =
     (case apiRef h of
        None \<Rightarrow> ([], st)
      | Some api \<Rightarrow>
          (let cur = PanePanelApi_isExpanded api st
           in ([GetExpanded api, SetExpanded api (\<not> cur)],
               PanePanelApi_setExpanded api (\<not> cur) st)))"

section \<open>The Layout Engine, as the orchestrator consumes it\<close>

text \<open>The \<open>descriptor\<close> option of the engine's constructor: \<open>{ size, views: [{ size, view }] }\<close>.\<close>

record PaneviewDescriptor =
  ds_size :: int
  ds_views :: "(int \<times> ref) list"

text \<open>
  Modelled from the spec: \<open>Paneview\<close> of \<open>paneview/paneview.ts\<close> is not among the
  sources; the orchestrator consumes it "via a narrow contract": \<open>addPane(pane, size,
  index?)\<close>, \<open>removePane(index)\<close>, \<open>moveView(from, to)\<close>, \<open>getPanes()\<close>,
  \<open>getViewSize(index)\<close>, \<open>layout(sizeAlongAxis, sizeAcrossAxis)\<close>, \<open>size\<close>,
  \<open>orthogonalSize\<close>, \<open>orientation\<close>, with the constructor and \<open>dispose\<close> that
  \<open>paneviewComponent.ts\<close> calls (the getters \<open>minimumSize\<close> and \<open>maximumSize\<close>, which
  the orchestrator only passes on, are left out). The orchestrator is
  embedded over any engine \<open>E\<close> with these operations on its own state \<open>'e\<close>; panes are
  handed over and come back as references.
\<close>

record 'e LayoutEngine =
  pv_new :: "HTMLElement \<Rightarrow> Orientation \<Rightarrow> PaneviewDescriptor option \<Rightarrow> 'e"
  pv_addPane :: "'e \<Rightarrow> ref \<Rightarrow> SizeArg \<Rightarrow> int option \<Rightarrow> 'e"
  pv_removePane :: "'e \<Rightarrow> int \<Rightarrow> 'e"
  pv_moveView :: "'e \<Rightarrow> int \<Rightarrow> int \<Rightarrow> 'e"
  pv_getPanes :: "'e \<Rightarrow> ref list"
  pv_getViewSize :: "'e \<Rightarrow> nat \<Rightarrow> int"
  pv_layout :: "'e \<Rightarrow> int \<Rightarrow> int \<Rightarrow> 'e"
  pv_size :: "'e \<Rightarrow> int"
  pv_orthogonalSize :: "'e \<Rightarrow> int"
  pv_orientation :: "'e \<Rightarrow> Orientation"
  pv_dispose :: "'e \<Rightarrow> 'e"

section \<open>The Panel Orchestrator\<close>

text \<open>
  \<open>class PaneviewComponent\<close>: its fields \<open>paneview\<close>, \<open>element\<close> and \<open>options\<close>,
  and what its methods act on besides: the store of the panels, with the next free
  reference; \<open>inits\<close>, the panels whose \<open>init\<close> has run, oldest first; and \<open>timers\<close>,
  the callbacks handed to \<open>setTimeout\<close> that the host has not run yet, each the queue
  of panel initializations it will run.
\<close>

record 'e PaneviewComponent =
  paneview :: 'e
  element :: HTMLElement
  options :: PaneviewComponentOptions
  store :: "ref \<Rightarrow> PaneFramework"
  nextRef :: ref
  inits :: "ref list"
  timers :: "(ref \<times> PanePanelInitParameter) list list"

text \<open>A call either throws, leaving the state it had reached, or returns.\<close>

datatype ('v, 's) outcome = Throws ResolutionError 's | Returns 'v 's

definition threw :: "('v, 's) outcome \<Rightarrow> bool" where
  "threw r = (case r of Throws err s \<Rightarrow> True | Returns v s \<Rightarrow> False)"

definition final :: "('v, 's) outcome \<Rightarrow> 's" where
  "final r = (case r of Throws err s \<Rightarrow> s | Returns v s \<Rightarrow> s)"

record 's IDisposable =
  dispose :: "'s \<Rightarrow> 's"

text \<open>
  The constructor: absent \<open>components\<close> and \<open>frameworkComponents\<close> become empty
  registries, and the engine is a new vertical one. \<open>st\<close> is the store as the
  constructor finds it.
\<close>

definition PaneviewComponent_new ::
  "'e LayoutEngine \<Rightarrow> HTMLElement \<Rightarrow> PaneviewComponentOptions \<Rightarrow> (ref \<Rightarrow> PaneFramework)
    \<Rightarrow> 'e PaneviewComponent" where
  "PaneviewComponent_new E el opts st =
     (let opts1 = (if components opts = None then opts\<lparr>components := Some Map.empty\<rparr> else opts);
          opts2 = (if frameworkComponents opts1 = None
                   then opts1\<lparr>frameworkComponents := Some Map.empty\<rparr> else opts1)
      in \<lparr>paneview = pv_new E el VERTICAL None, element = el, options = opts2,
          store = st, nextRef = 0, inits = [], timers = []\<rparr>)"

definition height :: "'e LayoutEngine \<Rightarrow> 'e PaneviewComponent \<Rightarrow> int" where
  "height E this =
     (if pv_orientation E (paneview this) = HORIZONTAL
      then pv_orthogonalSize E (paneview this) else pv_size E (paneview this))"

definition width :: "'e LayoutEngine \<Rightarrow> 'e PaneviewComponent \<Rightarrow> int" where
  "width E this =
     (if pv_orientation E (paneview this) = HORIZONTAL
      then pv_size E (paneview this) else pv_orthogonalSize E (paneview this))"

text \<open>
  The block \<open>if (headerComponent) { header = createComponent(...) } else { header = new
  DefaultHeader() }\<close>, which \<open>addPanel\<close> and \<open>fromJSON\<close> both have; they differ in the
  framework registry they pass, which is the argument \<open>framework\<close>.
\<close>

definition headerPart ::
  "PaneviewComponentOptions \<Rightarrow> string \<Rightarrow> string option \<Rightarrow> registry option
    \<Rightarrow> ResolutionError + IPaneHeaderPart" where
  "headerPart opts pid headerComponent framework =
     (if truthy headerComponent
      then (case createComponent pid (case headerComponent of None \<Rightarrow> [] | Some k \<Rightarrow> k)
                   (orEmpty (headerComponents opts)) framework
                   (map_option fw_header (frameworkWrapper opts)) of
              Inl err \<Rightarrow> Inl err
            | Inr r \<Rightarrow> Inr (Custom r))
      else Inr (Default DefaultHeader_new))"

text \<open>\<open>view.init(...)\<close> on the panel at a reference: the panel changes in the store.\<close>

definition panelInit ::
  "ref \<Rightarrow> PanePanelInitParameter \<Rightarrow> 'e PaneviewComponent \<Rightarrow> 'e PaneviewComponent" where
  "panelInit view p this =
     this\<lparr>store := (store this)(view := PaneviewPanel_init view p (store this view)),
          inits := inits this @ [view]\<rparr>"

definition focus :: "'e PaneviewComponent \<Rightarrow> 'e PaneviewComponent" where
  "focus this = this"

definition addPanel ::
  "'e LayoutEngine \<Rightarrow> 'e PaneviewComponent \<Rightarrow> AddPaneviewCompponentOptions
    \<Rightarrow> ('e PaneviewComponent IDisposable, 'e PaneviewComponent) outcome" where
  "addPanel E this opts =
     (case createComponent (ao_id opts) (ao_component opts)
             (orEmpty (components (options this)))
             (Some (orEmpty (frameworkComponents (options this))))
             (map_option fw_body (frameworkWrapper (options this))) of
        Inl err \<Rightarrow> Throws err this
      | Inr body \<Rightarrow>
          (case headerPart (options this) (ao_id opts) (ao_headerComponent opts)
                  (headerframeworkComponents (options this)) of
             Inl err \<Rightarrow> Throws err this
           | Inr header \<Rightarrow>
               (let view = nextRef this;
                    this1 = this\<lparr>store := (store this)(view :=
                                PaneFramework_new (ao_id opts) (ao_component opts)
                                  (ao_headerComponent opts) header body VERTICAL),
                              nextRef := Suc view\<rparr>;
                    size = (case ao_size opts of Some n \<Rightarrow> Number n | None \<Rightarrow> Mode Distribute);
                    index = (case ao_index opts of Some i \<Rightarrow> Some i | None \<Rightarrow> None);
                    this2 = this1\<lparr>paneview := pv_addPane E (paneview this1) view size index\<rparr>;
                    this3 = panelInit view
                              \<lparr>ip_params = (case ao_params opts of None \<Rightarrow> [] | Some p \<Rightarrow> p),
                               ip_minimumBodySize = ao_minimumBodySize opts,
                               ip_maximumBodySize = ao_maximumBodySize opts,
                               ip_isExpanded = ao_isExpanded opts,
                               ip_title = ao_title opts,
                               ip_containerApi = PaneviewApi\<rparr> this2;
                    this4 = this3\<lparr>store := (store this3)(view :=
                                (store this3 view)\<lparr>pf_orientation :=
                                   pv_orientation E (paneview this3)\<rparr>)\<rparr>
                in Returns \<lparr>dispose = (\<lambda>s. s)\<rparr> this4)))"

definition getPanels :: "'e LayoutEngine \<Rightarrow> 'e PaneviewComponent \<Rightarrow> ref list" where
  "getPanels E this = pv_getPanes E (paneview this)"

text \<open>\<open>Array.prototype.findIndex\<close>: the first index whose element passes, or \<open>-1\<close>.\<close>

fun findIndexFrom :: "('a \<Rightarrow> bool) \<Rightarrow> 'a list \<Rightarrow> int \<Rightarrow> int" where
  "findIndexFrom P [] i = - 1"
| "findIndexFrom P (x # xs) i = (if P x then i else findIndexFrom P xs (i + 1))"

definition findIndex :: "('a \<Rightarrow> bool) \<Rightarrow> 'a list \<Rightarrow> int" where
  "findIndex P xs = findIndexFrom P xs 0"

definition removePanel :: "'e LayoutEngine \<Rightarrow> 'e PaneviewComponent \<Rightarrow> ref \<Rightarrow> 'e PaneviewComponent" where
  "removePanel E this panel =
     (let views = getPanels E this;
          index = findIndex (\<lambda>v. v = panel) views
      in this\<lparr>paneview := pv_removePane E (paneview this) index\<rparr>)"

definition movePanel :: "'e LayoutEngine \<Rightarrow> 'e PaneviewComponent \<Rightarrow> int \<Rightarrow> int \<Rightarrow> 'e PaneviewComponent" where
  "movePanel E this from to = this\<lparr>paneview := pv_moveView E (paneview this) from to\<rparr>"

definition getPanel :: "'e LayoutEngine \<Rightarrow> 'e PaneviewComponent \<Rightarrow> string \<Rightarrow> ref option" where
  "getPanel E this pid = find (\<lambda>view. pf_id (store this view) = pid) (getPanels E this)"

definition layout :: "'e LayoutEngine \<Rightarrow> 'e PaneviewComponent \<Rightarrow> int \<Rightarrow> int \<Rightarrow> 'e PaneviewComponent" where
  "layout E this w h =
     (let (size, orthogonalSize) =
            (if pv_orientation E (paneview this) = HORIZONTAL then (w, h) else (h, w))
      in this\<lparr>paneview := pv_layout E (paneview this) size orthogonalSize\<rparr>)"

definition resizeToFit :: "'e LayoutEngine \<Rightarrow> 'e PaneviewComponent \<Rightarrow> 'e PaneviewComponent" where
  "resizeToFit E this =
     (case parentElement (element this) of
        None \<Rightarrow> this
      | Some rect \<Rightarrow> layout E this (rect_width rect) (rect_height rect))"

definition toJSON :: "'e LayoutEngine \<Rightarrow> 'e PaneviewComponent \<Rightarrow> SerializedPaneview" where
  "toJSON E this =
     (let views =
            map (\<lambda>(i, view).
                   (let size = pv_getViewSize E (paneview this) i
                    in \<lparr>sp_snap = None, sp_priority = None,
                        sp_minimumSize = pf_minimumBodySize (store this view),
                        sp_maximumSize = pf_maximumBodySize (store this view),
                        sp_data = PaneviewPanel_toJSON (store this view),
                        sp_size = size,
                        sp_expanded = Some (isExpanded (store this view))\<rparr>))
                (enumerate 0 (pv_getPanes E (paneview this)))
      in \<lparr>sv_size = pv_size E (paneview this), sv_views = views\<rparr>)"

text \<open>
  The callback of \<open>views.map\<close> in \<open>fromJSON\<close>: the panel it constructs and the
  parameters of the \<open>panel.init\<close> it pushes on the queue, or the factory's error.
\<close>

definition constructView ::
  "PaneviewComponentOptions \<Rightarrow> SerializedPaneviewPanel
    \<Rightarrow> ResolutionError + (PaneFramework \<times> PanePanelInitParameter)" where
  "constructView opts view =
     (let data = sp_data view
      in case createComponent (d_id data) (d_component data)
                (orEmpty (components opts))
                (Some (orEmpty (frameworkComponents opts)))
                (map_option fw_body (frameworkWrapper opts)) of
           Inl err \<Rightarrow> Inl err
         | Inr body \<Rightarrow>
             (case headerPart opts (d_id data) (d_headerComponent data)
                     (Some (orEmpty (headerframeworkComponents opts))) of
                Inl err \<Rightarrow> Inl err
              | Inr header \<Rightarrow>
                  Inr (PaneFramework_new (d_id data) (d_component data)
                         (d_headerComponent data) header body VERTICAL,
                       \<lparr>ip_params = (case d_params data of None \<Rightarrow> [] | Some p \<Rightarrow> p),
                        ip_minimumBodySize = sp_minimumSize view,
                        ip_maximumBodySize = sp_maximumSize view,
                        ip_isExpanded = Some (notnot (sp_expanded view)),
                        ip_title = d_title data,
                        ip_containerApi = PaneviewApi\<rparr>)))"

text \<open>\<open>views.map\<close>, left to right; the first error ends it.\<close>

fun constructViews ::
  "PaneviewComponentOptions \<Rightarrow> SerializedPaneviewPanel list
    \<Rightarrow> ResolutionError + (PaneFramework \<times> PanePanelInitParameter) list" where
  "constructViews opts [] = Inr []"
| "constructViews opts (v # vs) =
     (case constructView opts v of
        Inl err \<Rightarrow> Inl err
      | Inr x \<Rightarrow>
          (case constructViews opts vs of
             Inl err \<Rightarrow> Inl err
           | Inr xs \<Rightarrow> Inr (x # xs)))"

text \<open>\<open>queue.forEach((f) => f())\<close>.\<close>

definition runQueue ::
  "(ref \<times> PanePanelInitParameter) list \<Rightarrow> 'e PaneviewComponent \<Rightarrow> 'e PaneviewComponent" where
  "runQueue queue this = fold (\<lambda>(view, p) s. panelInit view p s) queue this"

text \<open>
  \<open>fromJSON\<close>. The engine is disposed first; an error of \<open>views.map\<close> leaves the
  method there. The panels constructed take the next free references, in the order of
  the document. With \<open>deferComponentLayout\<close> the queue goes to \<open>setTimeout\<close>.
\<close>

definition fromJSON ::
  "'e LayoutEngine \<Rightarrow> 'e PaneviewComponent \<Rightarrow> SerializedPaneview \<Rightarrow> bool
    \<Rightarrow> (unit, 'e PaneviewComponent) outcome" where
  "fromJSON E this doc deferComponentLayout =
     (let views = sv_views doc;
          size = sv_size doc;
          this0 = this\<lparr>paneview := pv_dispose E (paneview this)\<rparr>
      in case constructViews (options this0) views of
           Inl err \<Rightarrow> Throws err this0
         | Inr built \<Rightarrow>
             (let refs = [nextRef this0 ..< nextRef this0 + length built];
                  queue = zip refs (map snd built);
                  this1 = this0\<lparr>store := fold (\<lambda>(r, panel) st. st(r := panel))
                                         (zip refs (map fst built)) (store this0),
                               nextRef := nextRef this0 + length built\<rparr>;
                  this2 = this1\<lparr>paneview := pv_new E (element this1) VERTICAL
                               (Some \<lparr>ds_size = size,
                                      ds_views = zip (map sp_size views) refs\<rparr>)\<rparr>;
                  this3 = layout E this2 (width E this2) (height E this2)
              in if deferComponentLayout
                 then Returns () (this3\<lparr>timers := timers this3 @ [queue]\<rparr>)
                 else Returns () (runQueue queue this3)))"

text \<open>One later turn of the host's task queue: the oldest pending callback runs.\<close>

definition tick :: "'e PaneviewComponent \<Rightarrow> 'e PaneviewComponent" where
  "tick this =
     (case timers this of
        [] \<Rightarrow> this
      | queue # rest \<Rightarrow> runQueue queue (this\<lparr>timers := rest\<rparr>))"

section \<open>Sequences of calls\<close>

text \<open>The three membership operations, and a state reached by a sequence of them.\<close>

datatype Membership =
    AddPanel AddPaneviewCompponentOptions
  | MovePanel int int
  | RemovePanel ref

definition perform :: "'e LayoutEngine \<Rightarrow> 'e PaneviewComponent \<Rightarrow> Membership \<Rightarrow> 'e PaneviewComponent" where
  "perform E this m =
     (case m of
        AddPanel opts \<Rightarrow> final (addPanel E this opts)
      | MovePanel from to \<Rightarrow> movePanel E this from to
      | RemovePanel panel \<Rightarrow> removePanel E this panel)"

definition reached ::
  "'e LayoutEngine \<Rightarrow> HTMLElement \<Rightarrow> PaneviewComponentOptions \<Rightarrow> (ref \<Rightarrow> PaneFramework)
    \<Rightarrow> Membership list \<Rightarrow> 'e PaneviewComponent" where
  "reached E el opts st ms = foldl (perform E) (PaneviewComponent_new E el opts st) ms"

text \<open>Every state-changing call of the public surface, and a later turn of the host.\<close>

datatype Call =
    Member Membership
  | Layout int int
  | ResizeToFit
  | FromJSON SerializedPaneview bool
  | Tick

definition call :: "'e LayoutEngine \<Rightarrow> 'e PaneviewComponent \<Rightarrow> Call \<Rightarrow> 'e PaneviewComponent" where
  "call E this c =
     (case c of
        Member m \<Rightarrow> perform E this m
      | Layout w h \<Rightarrow> layout E this w h
      | ResizeToFit \<Rightarrow> resizeToFit E this
      | FromJSON doc deferComponentLayout \<Rightarrow> final (fromJSON E this doc deferComponentLayout)
      | Tick \<Rightarrow> tick this)"

definition after ::
  "'e LayoutEngine \<Rightarrow> HTMLElement \<Rightarrow> PaneviewComponentOptions \<Rightarrow> (ref \<Rightarrow> PaneFramework)
    \<Rightarrow> Call list \<Rightarrow> 'e PaneviewComponent" where
  "after E el opts st cs = foldl (call E) (PaneviewComponent_new E el opts st) cs"

section \<open>A reference Layout Engine\<close>

text \<open>
  Modelled from the spec: \<open>Paneview\<close> of \<open>paneview/paneview.ts\<close> is not among the
  sources. The reference engine keeps what the contract names: the ordered sequence of
  panes, each with its current pixel size; \<open>size\<close> and \<open>orthogonalSize\<close>; the
  \<open>orientation\<close> it was constructed with; and whether it was disposed.
\<close>

record Paneview =
  panes :: "(ref \<times> int) list"
  extent :: int
  orthogonal :: int
  orient :: Orientation
  disposed :: bool

text \<open>
  Modelled from the spec: the engine's constructor. Without a descriptor the engine is
  empty; with one it is "pre-populated" with the descriptor's views at the
  descriptor's sizes.
\<close>

definition Paneview_new :: "HTMLElement \<Rightarrow> Orientation \<Rightarrow> PaneviewDescriptor option \<Rightarrow> Paneview" where
  "Paneview_new el orientation descriptor =
     \<lparr>panes = (case descriptor of None \<Rightarrow> []
               | Some d \<Rightarrow> map (\<lambda>(sz, view). (view, sz)) (ds_views d)),
      extent = (case descriptor of None \<Rightarrow> 0 | Some d \<Rightarrow> ds_size d),
      orthogonal = 0, orient = orientation, disposed = False\<rparr>"

text \<open>
  Where an index lands in an array of \<open>len\<close> elements, as \<open>Array.prototype.splice\<close>
  reads it: a negative index counts from the end, and the result is clamped to
  \<open>0 .. len\<close>.
\<close>

definition spliceStart :: "nat \<Rightarrow> int \<Rightarrow> nat" where
  "spliceStart len i = (if i < 0 then nat (max (int len + i) 0) else min (nat i) len)"

text \<open>
  Modelled from the spec: "distribute remaining space evenly among all panes"; three
  panes in a container of size \<open>S\<close> get \<open>S/3\<close> each, the "rounding remainder assigned
  deterministically, e.g., to the first pane".
\<close>

definition distributeViewSizes :: "int \<Rightarrow> (ref \<times> int) list \<Rightarrow> (ref \<times> int) list" where
  "distributeViewSizes avail ps =
     (let n = int (length ps)
      in map (\<lambda>(i, (view, sz)).
                (view, avail div n + (if i = 0 then avail mod n else 0)))
             (enumerate 0 ps))"

text \<open>
  Modelled from the spec: \<open>addPane(pane, size, index?)\<close> inserts "at
  \<open>descriptor.index\<close> (append if omitted) with a size of either an explicit pixel value
  or a distribute remaining space evenly among all panes sizing mode".
\<close>

definition Paneview_addPane :: "Paneview \<Rightarrow> ref \<Rightarrow> SizeArg \<Rightarrow> int option \<Rightarrow> Paneview" where
  "Paneview_addPane pv pane sizing index =
     (let i = (case index of None \<Rightarrow> length (panes pv)
               | Some k \<Rightarrow> spliceStart (length (panes pv)) k);
          sz = (case sizing of Number n \<Rightarrow> n | Mode Distribute \<Rightarrow> 0);
          inserted = take i (panes pv) @ [(pane, sz)] @ drop i (panes pv)
      in pv\<lparr>panes := (case sizing of
                        Number n \<Rightarrow> inserted
                      | Mode Distribute \<Rightarrow> distributeViewSizes (extent pv) inserted)\<rparr>)"

text \<open>
  Modelled from the spec: \<open>removePane(index)\<close> "removes at that index"; the index is
  read as \<open>splice(index, 1)\<close> reads it.
\<close>

definition Paneview_removePane :: "Paneview \<Rightarrow> int \<Rightarrow> Paneview" where
  "Paneview_removePane pv index =
     (let i = spliceStart (length (panes pv)) index
      in pv\<lparr>panes := take i (panes pv) @ drop (Suc i) (panes pv)\<rparr>)"

text \<open>
  Modelled from the spec: \<open>moveView(from, to)\<close> reorders; "the panel previously at
  \<open>from\<close> is now at \<open>to\<close>" and the others close the gap. A \<open>from\<close> that names no
  pane moves nothing.
\<close>

definition Paneview_moveView :: "Paneview \<Rightarrow> int \<Rightarrow> int \<Rightarrow> Paneview" where
  "Paneview_moveView pv from to =
     (let i = spliceStart (length (panes pv)) from
      in if i < length (panes pv)
         then (let rest = take i (panes pv) @ drop (Suc i) (panes pv);
                   j = spliceStart (length rest) to
               in pv\<lparr>panes := take j rest @ [panes pv ! i] @ drop j rest\<rparr>)
         else pv)"

text \<open>Modelled from the spec: \<open>getPanes()\<close> is the ordered sequence of the panes.\<close>

definition Paneview_getPanes :: "Paneview \<Rightarrow> ref list" where
  "Paneview_getPanes pv = map fst (panes pv)"

text \<open>
  Modelled from the spec: \<open>getViewSize(index)\<close> is the current pixel size of the pane
  at the index (0 where there is no such pane).
\<close>

definition Paneview_getViewSize :: "Paneview \<Rightarrow> nat \<Rightarrow> int" where
  "Paneview_getViewSize pv i = (case drop i (panes pv) of [] \<Rightarrow> 0 | p # rest \<Rightarrow> snd p)"

text \<open>
  Modelled from the spec: \<open>layout(sizeAlongAxis, sizeAcrossAxis)\<close> takes the two
  extents, and the "Layout Engine recomputes sizes". How the pixels are distributed
  among the panes when the extent along the axis changes is outside the spec; it is
  the parameter \<open>D\<close>, which gives the new size of the pane at an index from the old
  extent, the new extent and the old sizes. A layout at the extent the engine already
  has leaves the pane sizes as they are.
\<close>

definition Paneview_layout ::
  "(int \<Rightarrow> int \<Rightarrow> int list \<Rightarrow> nat \<Rightarrow> int) \<Rightarrow> Paneview \<Rightarrow> int \<Rightarrow> int \<Rightarrow> Paneview" where
  "Paneview_layout D pv along across =
     pv\<lparr>panes := (if along = extent pv then panes pv
                  else map (\<lambda>(i, (view, sz)). (view, D (extent pv) along (map snd (panes pv)) i))
                         (enumerate 0 (panes pv))),
        extent := along, orthogonal := across\<rparr>"

text \<open>Modelled from the spec: \<open>dispose()\<close> tears the engine down; it stays disposed.\<close>

definition Paneview_dispose :: "Paneview \<Rightarrow> Paneview" where
  "Paneview_dispose pv = pv\<lparr>disposed := True\<rparr>"

text \<open>
  Modelled from the spec: the reference engine as a Layout Engine; \<open>size\<close>,
  \<open>orthogonalSize\<close> and \<open>orientation\<close> are its getters.
\<close>

definition RefEngine :: "(int \<Rightarrow> int \<Rightarrow> int list \<Rightarrow> nat \<Rightarrow> int) \<Rightarrow> Paneview LayoutEngine" where
  "RefEngine D =
     \<lparr>pv_new = Paneview_new, pv_addPane = Paneview_addPane,
      pv_removePane = Paneview_removePane, pv_moveView = Paneview_moveView,
      pv_getPanes = Paneview_getPanes, pv_getViewSize = Paneview_getViewSize,
      pv_layout = Paneview_layout D, pv_size = extent, pv_orthogonalSize = orthogonal,
      pv_orientation = orient, pv_dispose = Paneview_dispose\<rparr>"

section \<open>Notions used in the statements and proofs\<close>

text \<open>
  The view that \<open>toJSON\<close> emits for a panel whose pane has the pixel size \<open>z\<close>.
\<close>

definition viewOf :: "int \<Rightarrow> PaneFramework \<Rightarrow> SerializedPaneviewPanel" where
  "viewOf z x =
     \<lparr>sp_snap = None, sp_priority = None,
      sp_minimumSize = pf_minimumBodySize x, sp_maximumSize = pf_maximumBodySize x,
      sp_data = PaneviewPanel_toJSON x, sp_size = z, sp_expanded = Some (isExpanded x)\<rparr>"

text \<open>
  A panel is resolvable under the options when the factory, called as \<open>fromJSON\<close>
  calls it, finds its body kind and, if it has one, its header kind.
\<close>

definition resolvable :: "PaneviewComponentOptions \<Rightarrow> PaneFramework \<Rightarrow> bool" where
  "resolvable opts x =
     (\<not> isl (createComponent (pf_id x) (pf_component x) (orEmpty (components opts))
               (Some (orEmpty (frameworkComponents opts)))
               (map_option fw_body (frameworkWrapper opts))) \<and>
      \<not> isl (headerPart opts (pf_id x) (pf_headerComponent x)
               (Some (orEmpty (headerframeworkComponents opts)))))"

text \<open>
  The invariant of the membership operations over the reference engine: every pane of
  the engine is an allocated panel that is resolvable.
\<close>

definition sound :: "Paneview PaneviewComponent \<Rightarrow> bool" where
  "sound this =
     list_all (\<lambda>v. v < nextRef this \<and> resolvable (options this) (store this v))
       (map fst (panes (paneview this)))"

section \<open>Concrete orchestrators\<close>

text \<open>A pixel distribution for the reference engine: every pane gets an equal share.\<close>

definition splitEvenly :: "int \<Rightarrow> int \<Rightarrow> int list \<Rightarrow> nat \<Rightarrow> int" where
  "splitEvenly old new sizes i = new div int (length sizes)"

definition exEngine :: "Paneview LayoutEngine" where
  "exEngine = RefEngine splitEvenly"

text \<open>Options that register the one body kind \<open>text\<close>.\<close>

definition exOptions :: PaneviewComponentOptions where
  "exOptions =
     \<lparr>components = Some [''text'' \<mapsto> 1], frameworkComponents = None,
      headerComponents = None, headerframeworkComponents = None, frameworkWrapper = None\<rparr>"

definition detached :: HTMLElement where
  "detached = \<lparr>parentElement = None\<rparr>"

definition blank :: PaneFramework where
  "blank = PaneFramework_new [] [] None (Default DefaultHeader_new) (PlainRenderer [] [] 0) VERTICAL"

definition panelOne :: AddPaneviewCompponentOptions where
  "panelOne =
     \<lparr>ao_id = ''p1'', ao_component = ''text'', ao_headerComponent = None,
      ao_params = None, ao_minimumBodySize = None, ao_maximumBodySize = None,
      ao_isExpanded = None, ao_title = ''One'', ao_index = None, ao_size = None\<rparr>"

definition panelTwo :: AddPaneviewCompponentOptions where
  "panelTwo =
     \<lparr>ao_id = ''p2'', ao_component = ''text'', ao_headerComponent = None,
      ao_params = Some [(''k'', ''v'')], ao_minimumBodySize = Some 10,
      ao_maximumBodySize = None, ao_isExpanded = Some True, ao_title = ''Two'',
      ao_index = None, ao_size = Some 100\<rparr>"

text \<open>
  The orchestrator after \<open>addPanel(p1)\<close> and \<open>addPanel(p2)\<close>: its panels are at the
  references 0 and 1, in this order.
\<close>

definition twoPanels :: "Paneview PaneviewComponent" where
  "twoPanels =
     reached exEngine detached exOptions (\<lambda>r. blank) [AddPanel panelOne, AddPanel panelTwo]"

text \<open>The same orchestrator, had its engine been a horizontal one.\<close>

definition sideways :: "Paneview PaneviewComponent" where
  "sideways = twoPanels\<lparr>paneview := (paneview twoPanels)\<lparr>orient := HORIZONTAL\<rparr>\<rparr>"

text \<open>A document whose only view names a body kind that no registry has.\<close>

definition badDoc :: SerializedPaneview where
  "badDoc =
     \<lparr>sv_size = 300,
      sv_views =
        [\<lparr>sp_snap = None, sp_priority = None, sp_minimumSize = None, sp_maximumSize = None,
          sp_data = \<lparr>d_id = ''p3'', d_component = ''missing'', d_title = ''Three'',
                     d_headerComponent = None, d_params = None, d_state = None\<rparr>,
          sp_size = 300, sp_expanded = None\<rparr>]\<rparr>"


section \<open>What the calls do to the engine\<close>

lemma addPanel_handle:
  "addPanel E this opts = Returns h this' \<Longrightarrow> h = \<lparr>dispose = (\<lambda>s. s)\<rparr>"
  by (auto simp: addPanel_def Let_def split: sum.splits)

lemma addPanel_paneview:
  "addPanel E this opts = Returns h this' \<Longrightarrow>
     paneview this' = pv_addPane E (paneview this) (nextRef this)
        (case ao_size opts of Some n \<Rightarrow> Number n | None \<Rightarrow> Mode Distribute) (ao_index opts)"
  by (auto simp: addPanel_def Let_def panelInit_def split: sum.splits option.splits)

lemma addPanel_panel:
  "addPanel E this opts = Returns h this' \<Longrightarrow>
     pf_id (store this' (nextRef this)) = ao_id opts \<and>
     pf_component (store this' (nextRef this)) = ao_component opts"
  by (auto simp: addPanel_def Let_def panelInit_def PaneviewPanel_init_def PaneFramework_new_def
      split: sum.splits option.splits)

lemma toJSON_sizes:
  "map sp_size (sv_views (toJSON E this)) =
     map (pv_getViewSize E (paneview this)) [0..<length (getPanels E this)]"
  by (auto simp: toJSON_def getPanels_def Let_def enumerate_eq_zip intro!: nth_equalityI)

lemma toJSON_data:
  "map sp_data (sv_views (toJSON E this)) =
     map (\<lambda>view. PaneviewPanel_toJSON (store this view)) (getPanels E this)"
  by (auto simp: toJSON_def getPanels_def Let_def enumerate_eq_zip intro!: nth_equalityI)

lemma findIndexFrom_absent: "\<not> (\<exists>x\<in>set xs. P x) \<Longrightarrow> findIndexFrom P xs i = - 1"
  by (induction xs arbitrary: i) auto

lemma removePanel_absent:
  "panel \<notin> set (getPanels E this) \<Longrightarrow>
     removePanel E this panel = this\<lparr>paneview := pv_removePane E (paneview this) (- 1)\<rparr>"
  by (simp add: removePanel_def findIndex_def findIndexFrom_absent Let_def)

section \<open>Serializing and rebuilding\<close>

lemma toJSON_viewOf:
  "toJSON E this =
     \<lparr>sv_size = pv_size E (paneview this),
      sv_views = map (\<lambda>(i, view). viewOf (pv_getViewSize E (paneview this) i) (store this view))
                   (enumerate 0 (pv_getPanes E (paneview this)))\<rparr>"
  by (simp add: toJSON_def viewOf_def Let_def)

lemma constructView_viewOf:
  assumes "resolvable opts x"
  shows "\<exists>y ip. constructView opts (viewOf z x) = Inr (y, ip) \<and>
           (\<forall>r z'. viewOf z' (PaneviewPanel_init r ip y) = viewOf z' x)"
  using assms
  by (auto simp: resolvable_def constructView_def viewOf_def PaneviewPanel_toJSON_def Let_def
      PaneviewPanel_init_def PaneFramework_new_def isExpanded_def notnot_def
      split: sum.splits)

lemma constructViews_viewOf:
  assumes "list_all (\<lambda>(z, x). resolvable opts x) zxs"
  shows "\<exists>built. constructViews opts (map (\<lambda>(z, x). viewOf z x) zxs) = Inr built \<and>
           length built = length zxs \<and>
           (\<forall>i<length zxs. \<forall>r z'. viewOf z' (PaneviewPanel_init r (snd (built ! i)) (fst (built ! i)))
                = viewOf z' (snd (zxs ! i)))"
  using assms
proof (induction zxs)
  case Nil
  then show ?case by simp
next
  case (Cons a zxs)
  obtain z x where a: "a = (z, x)" by (cases a)
  from Cons.prems a have rx: "resolvable opts x" and rest: "list_all (\<lambda>(z, x). resolvable opts x) zxs"
    by auto
  from constructView_viewOf [OF rx, of z] obtain y ip where
    cv: "constructView opts (viewOf z x) = Inr (y, ip)" and
    eqv: "\<And>r z'. viewOf z' (PaneviewPanel_init r ip y) = viewOf z' x"
    by blast
  from Cons.IH [OF rest] obtain built where
    b: "constructViews opts (map (\<lambda>(z, x). viewOf z x) zxs) = Inr built" and
    len: "length built = length zxs" and
    nth: "\<And>i r z'. i < length zxs \<Longrightarrow>
            viewOf z' (PaneviewPanel_init r (snd (built ! i)) (fst (built ! i))) = viewOf z' (snd (zxs ! i))"
    by blast
  have "constructViews opts (map (\<lambda>(z, x). viewOf z x) (a # zxs)) = Inr ((y, ip) # built)"
    using a cv b by simp
  moreover have "\<forall>i<length (a # zxs). \<forall>r z'.
      viewOf z' (PaneviewPanel_init r (snd (((y, ip) # built) ! i)) (fst (((y, ip) # built) ! i)))
        = viewOf z' (snd ((a # zxs) ! i))"
  proof (intro allI impI)
    fix i r z' assume "i < length (a # zxs)"
    then show "viewOf z' (PaneviewPanel_init r (snd (((y, ip) # built) ! i)) (fst (((y, ip) # built) ! i)))
        = viewOf z' (snd ((a # zxs) ! i))"
      using a eqv nth by (cases i) auto
  qed
  ultimately show ?case using len by auto
qed

lemma fold_upd_other:
  "k \<notin> set ks \<Longrightarrow> fold (\<lambda>(r, p) st. st(r := g r p (st r))) (zip ks vs) st k = st k"
  by (induction ks arbitrary: vs st) (auto simp: zip_Cons1 split: list.splits)

lemma fold_upd_nth:
  "distinct ks \<Longrightarrow> length ks = length vs \<Longrightarrow> i < length ks \<Longrightarrow>
     fold (\<lambda>(r, p) st. st(r := g r p (st r))) (zip ks vs) st (ks ! i) = g (ks ! i) (vs ! i) (st (ks ! i))"
proof (induction ks vs arbitrary: st i rule: list_induct2')
  case (4 k ks v vs)
  let ?F = "\<lambda>(r, p) st. st(r := g r p (st r))"
  have step: "fold ?F (zip (k # ks) (v # vs)) st = fold ?F (zip ks vs) (st(k := g k v (st k)))"
    by simp
  show ?case
  proof (cases i)
    case 0
    have "k \<notin> set ks" using 4 by simp
    then have "fold ?F (zip ks vs) (st(k := g k v (st k))) k = (st(k := g k v (st k))) k"
      by (rule fold_upd_other)
    then show ?thesis using 0 by (simp del: fun_upd_apply add: fun_upd_same)
  next
    case (Suc j)
    have "fold ?F (zip ks vs) (st(k := g k v (st k))) (ks ! j)
            = g (ks ! j) (vs ! j) ((st(k := g k v (st k))) (ks ! j))"
      using 4 Suc by (intro "4.IH") auto
    moreover have "ks ! j \<noteq> k" using 4 Suc by auto
    ultimately show ?thesis using Suc by (simp del: fun_upd_apply add: fun_upd_other)
  qed
qed auto

lemma runQueue_store:
  "store (runQueue q this) = fold (\<lambda>(r, p) st. st(r := PaneviewPanel_init r p (st r))) q (store this)"
  unfolding runQueue_def
  by (induction q arbitrary: this) (auto simp: panelInit_def)

lemma runQueue_paneview: "paneview (runQueue q this) = paneview this"
  unfolding runQueue_def
  by (induction q arbitrary: this) (auto simp: panelInit_def)

lemma runQueue_inits: "inits (runQueue q this) = inits this @ map fst q"
  unfolding runQueue_def
  by (induction q arbitrary: this) (auto simp: panelInit_def)

lemma getViewSize_nth: "i < length (panes pv) \<Longrightarrow> Paneview_getViewSize pv i = snd (panes pv ! i)"
  by (simp add: Paneview_getViewSize_def Cons_nth_drop_Suc [symmetric])

lemma swap_zip: "map (\<lambda>(sz, view). (view, sz)) (zip xs ys) = zip ys xs"
  by (induction xs ys rule: list_induct2') auto

lemma toJSON_Ref:
  "toJSON (RefEngine D) this =
     \<lparr>sv_size = extent (paneview this),
      sv_views = map (\<lambda>(v, z). viewOf z (store this v)) (panes (paneview this))\<rparr>"
  by (auto simp: toJSON_viewOf RefEngine_def Paneview_getPanes_def getViewSize_nth
        enumerate_eq_zip intro!: nth_equalityI split: prod.splits)

lemma fromJSON_sync_Ref:
  assumes "constructViews (options this) (sv_views doc) = Inr built"
  shows "fromJSON (RefEngine D) this doc False = Returns () (final (fromJSON (RefEngine D) this doc False))"
    and "paneview (final (fromJSON (RefEngine D) this doc False)) =
           \<lparr>panes = zip [nextRef this ..< nextRef this + length built] (map sp_size (sv_views doc)),
            extent = sv_size doc, orthogonal = 0, orient = VERTICAL, disposed = False\<rparr>"
    and "store (final (fromJSON (RefEngine D) this doc False)) =
           fold (\<lambda>(r, p) st. st(r := PaneviewPanel_init r p (st r)))
             (zip [nextRef this ..< nextRef this + length built] (map snd built))
             (fold (\<lambda>(r, panel) st. st(r := panel))
                (zip [nextRef this ..< nextRef this + length built] (map fst built)) (store this))"
  using assms
  by (simp_all add: fromJSON_def Let_def final_def runQueue_store runQueue_paneview layout_def
      width_def height_def RefEngine_def Paneview_new_def Paneview_layout_def Paneview_dispose_def
      swap_zip)

lemma roundtrip_core:
  assumes res: "list_all (\<lambda>(v, z). resolvable (options this) (store this v)) (panes (paneview this))"
  shows "\<not> threw (fromJSON (RefEngine D) this (toJSON (RefEngine D) this) False) \<and>
         toJSON (RefEngine D) (final (fromJSON (RefEngine D) this (toJSON (RefEngine D) this) False))
           = toJSON (RefEngine D) this"
proof -
  let ?E = "RefEngine D"
  let ?ps = "panes (paneview this)"
  let ?zxs = "map (\<lambda>(v, z). (z, store this v)) ?ps"
  let ?b = "nextRef this"
  define doc where "doc = toJSON ?E this"
  have views: "sv_views doc = map (\<lambda>(z, x). viewOf z x) ?zxs"
    by (simp add: doc_def toJSON_Ref split_def comp_def)
  have sizes: "map sp_size (sv_views doc) = map snd ?ps"
    by (simp add: doc_def toJSON_Ref split_def comp_def viewOf_def)
  have docsize: "sv_size doc = extent (paneview this)"
    by (simp add: doc_def toJSON_Ref)
  have "list_all (\<lambda>(z, x). resolvable (options this) x) ?zxs"
    using res by (simp add: list_all_iff split_def)
  from constructViews_viewOf [OF this] obtain built where
    cv: "constructViews (options this) (sv_views doc) = Inr built" and
    len: "length built = length ?ps" and
    same: "\<And>i r z'. i < length ?ps \<Longrightarrow>
             viewOf z' (PaneviewPanel_init r (snd (built ! i)) (fst (built ! i)))
               = viewOf z' (store this (fst (?ps ! i)))"
    unfolding views by (auto simp: split_def)
  define f where "f = final (fromJSON ?E this doc False)"
  let ?refs = "[?b ..< ?b + length built]"
  note fj = fromJSON_sync_Ref [OF cv, of D, folded f_def]
  have nothrow: "\<not> threw (fromJSON ?E this doc False)"
    by (subst fj(1)) (simp add: threw_def)
  have pf: "panes (paneview f) = zip ?refs (map snd ?ps)"
    by (simp add: fj(2) sizes)
  have ext: "extent (paneview f) = extent (paneview this)"
    by (simp add: fj(2) docsize)
  have st: "store f (?b + i) = PaneviewPanel_init (?b + i) (snd (built ! i)) (fst (built ! i))"
    if i: "i < length ?ps" for i
  proof -
    let ?st1 = "fold (\<lambda>(r, panel) st. st(r := panel)) (zip ?refs (map fst built)) (store this)"
    have d: "distinct ?refs" by simp
    have l1: "length ?refs = length (map snd built)" by simp
    have l2: "length ?refs = length (map fst built)" by simp
    have i': "i < length ?refs" using i len by simp
    have r: "?refs ! i = ?b + i" using i' by simp
    have a: "?st1 (?refs ! i) = map fst built ! i"
      using fold_upd_nth [OF d l2 i', of "\<lambda>r p old. p" "store this"] by simp
    have "store f (?refs ! i) =
            PaneviewPanel_init (?refs ! i) (map snd built ! i) (?st1 (?refs ! i))"
      unfolding fj(3)
      by (rule fold_upd_nth [OF d l1 i'])
    then show ?thesis
      using a r i len by simp
  qed
  have "sv_views (toJSON ?E f) = sv_views doc"
  proof (rule nth_equalityI)
    show "length (sv_views (toJSON ?E f)) = length (sv_views doc)"
      by (simp add: toJSON_Ref pf len views)
  next
    fix i assume "i < length (sv_views (toJSON ?E f))"
    then have i: "i < length ?ps" by (simp add: toJSON_Ref pf len)
    then have "panes (paneview f) ! i = (?b + i, snd (?ps ! i))"
      by (simp add: pf len)
    then have "sv_views (toJSON ?E f) ! i = viewOf (snd (?ps ! i)) (store f (?b + i))"
      using i by (simp add: toJSON_Ref pf len)
    also have "\<dots> = viewOf (snd (?ps ! i)) (store this (fst (?ps ! i)))"
      using i by (simp add: st same)
    also have "\<dots> = sv_views doc ! i"
      using i by (simp add: views split_def)
    finally show "sv_views (toJSON ?E f) ! i = sv_views doc ! i" .
  qed
  moreover have "sv_size (toJSON ?E f) = sv_size doc"
    by (simp add: toJSON_Ref ext docsize)
  ultimately have "toJSON ?E f = doc"
    by (simp add: SerializedPaneview.equality)
  with nothrow show ?thesis by (simp add: f_def doc_def)
qed

lemma resolvable_cong:
  "pf_id x = pf_id y \<Longrightarrow> pf_component x = pf_component y \<Longrightarrow>
   pf_headerComponent x = pf_headerComponent y \<Longrightarrow> resolvable opts x = resolvable opts y"
  by (simp add: resolvable_def)

lemma createComponent_None: "createComponent i k p None w = createComponent i k p (Some Map.empty) w"
  by (simp add: createComponent_def split: option.splits)

lemma headerPart_raw:
  "isl (headerPart opts i hc (Some (orEmpty fr))) = isl (headerPart opts i hc fr)"
  by (cases fr) (auto simp: headerPart_def orEmpty_def createComponent_def split: option.splits)

lemma fst_distribute: "map fst (distributeViewSizes t ps) = map fst ps"
  by (auto simp: distributeViewSizes_def Let_def enumerate_eq_zip split_def intro!: nth_equalityI)

lemma set_take_drop: "set (take i xs) \<union> set (drop i xs) = set xs"
  by (metis append_take_drop_id set_append)

lemma getPanes_addPane:
  "map fst (panes (Paneview_addPane pv r sz ix)) =
     (let i = (case ix of None \<Rightarrow> length (panes pv) | Some k \<Rightarrow> spliceStart (length (panes pv)) k)
      in take i (map fst (panes pv)) @ r # drop i (map fst (panes pv)))"
  by (cases sz) (simp_all add: Paneview_addPane_def Let_def fst_distribute take_map drop_map
      split: Sizing.splits)

lemma set_addPane:
  "set (map fst (panes (Paneview_addPane pv r sz ix))) = insert r (set (map fst (panes pv)))"
  unfolding getPanes_addPane Let_def
  using set_take_drop [of _ "map fst (panes pv)"] by auto

lemma set_removePane: "set (panes (Paneview_removePane pv ix)) \<subseteq> set (panes pv)"
  by (auto simp: Paneview_removePane_def Let_def dest: in_set_takeD in_set_dropD)

lemma set_moveView: "set (panes (Paneview_moveView pv a b)) \<subseteq> set (panes pv)"
  by (auto simp: Paneview_moveView_def Let_def dest!: in_set_takeD in_set_dropD)

lemma sound_new: "sound (PaneviewComponent_new (RefEngine D) el opts st)"
  by (simp add: sound_def PaneviewComponent_new_def RefEngine_def Paneview_new_def Let_def)

lemma sound_addPanel:
  assumes "sound this"
  shows "sound (final (addPanel (RefEngine D) this opts))"
proof (cases "addPanel (RefEngine D) this opts")
  case (Throws err s)
  then have "s = this" by (auto simp: addPanel_def Let_def split: sum.splits)
  with Throws assms show ?thesis by (simp add: final_def)
next
  case (Returns h s)
  from Returns obtain body header where
    body: "createComponent (ao_id opts) (ao_component opts) (orEmpty (components (options this)))
             (Some (orEmpty (frameworkComponents (options this))))
             (map_option fw_body (frameworkWrapper (options this))) = Inr body" and
    header: "headerPart (options this) (ao_id opts) (ao_headerComponent opts)
               (headerframeworkComponents (options this)) = Inr header"
    by (auto simp: addPanel_def Let_def split: sum.splits)
  from Returns body header have
    pv: "paneview s = Paneview_addPane (paneview this) (nextRef this)
           (case ao_size opts of Some n \<Rightarrow> Number n | None \<Rightarrow> Mode Distribute) (ao_index opts)" and
    nr: "nextRef s = Suc (nextRef this)" and
    op: "options s = options this" and
    old: "\<And>v. v \<noteq> nextRef this \<Longrightarrow> store s v = store this v" and
    new: "pf_id (store s (nextRef this)) = ao_id opts"
         "pf_component (store s (nextRef this)) = ao_component opts"
         "pf_headerComponent (store s (nextRef this)) = ao_headerComponent opts"
    by (auto simp: addPanel_def Let_def panelInit_def RefEngine_def PaneviewPanel_init_def
        PaneFramework_new_def split: option.splits)
  have rnew: "resolvable (options this) (store s (nextRef this))"
    using body header headerPart_raw [of "options this" "ao_id opts" "ao_headerComponent opts"
        "headerframeworkComponents (options this)"]
    by (simp add: resolvable_def new)
  have "\<forall>v \<in> set (map fst (panes (paneview s))). v < nextRef s \<and> resolvable (options s) (store s v)"
  proof
    fix v assume "v \<in> set (map fst (panes (paneview s)))"
    then have "v = nextRef this \<or> v \<in> set (map fst (panes (paneview this)))"
      unfolding pv set_addPane by simp
    then show "v < nextRef s \<and> resolvable (options s) (store s v)"
    proof
      assume "v = nextRef this"
      then show ?thesis using rnew nr op by simp
    next
      assume v: "v \<in> set (map fst (panes (paneview this)))"
      with assms have "v < nextRef this" and "resolvable (options this) (store this v)"
        by (auto simp: sound_def list_all_iff)
      then show ?thesis using old [of v] nr op by simp
    qed
  qed
  then show ?thesis using Returns by (simp add: sound_def list_all_iff final_def)
qed

lemma sound_perform:
  assumes "sound this"
  shows "sound (perform (RefEngine D) this m)"
proof (cases m)
  case (AddPanel opts)
  then show ?thesis using sound_addPanel [OF assms] by (simp add: perform_def)
next
  case (MovePanel a b)
  then show ?thesis
    using assms set_moveView [of "paneview this" a b]
    by (auto simp: perform_def movePanel_def sound_def list_all_iff RefEngine_def)
next
  case (RemovePanel r)
  then show ?thesis
    using assms set_removePane [of "paneview this"]
    by (auto simp: perform_def removePanel_def sound_def list_all_iff RefEngine_def Let_def)
qed

lemma sound_foldl: "sound this \<Longrightarrow> sound (foldl (perform (RefEngine D)) this ms)"
  by (induction ms arbitrary: this) (auto intro: sound_perform)

lemma sound_reached: "sound (reached (RefEngine D) el opts st ms)"
  unfolding reached_def by (rule sound_foldl [OF sound_new])

lemma constructView_fields:
  "constructView opts v = Inr (x, p) \<Longrightarrow>
     pf_id x = d_id (sp_data v) \<and> pf_component x = d_component (sp_data v) \<and>
     pf_headerComponent x = d_headerComponent (sp_data v) \<and>
     ip_title p = d_title (sp_data v) \<and> ip_isExpanded p = Some (notnot (sp_expanded v)) \<and>
     ip_minimumBodySize p = sp_minimumSize v \<and> ip_maximumBodySize p = sp_maximumSize v \<and>
     ip_params p = (case d_params (sp_data v) of None \<Rightarrow> [] | Some q \<Rightarrow> q)"
  by (auto simp: constructView_def Let_def PaneFramework_new_def split: sum.splits)

lemma constructViews_length:
  "constructViews opts vs = Inr built \<Longrightarrow> length built = length vs"
  by (induction vs arbitrary: built) (auto split: sum.splits)

lemma constructViews_nth:
  "constructViews opts vs = Inr built \<Longrightarrow> i < length vs \<Longrightarrow>
     constructView opts (vs ! i) = Inr (built ! i)"
proof (induction vs arbitrary: built i)
  case Nil
  then show ?case by simp
next
  case (Cons v vs)
  then show ?case by (cases i) (auto split: sum.splits)
qed

lemma fromJSON_throws:
  "fromJSON E this doc d = Throws err s \<Longrightarrow>
     s = this\<lparr>paneview := pv_dispose E (paneview this)\<rparr> \<and>
     constructViews (options this) (sv_views doc) = Inl err"
  by (auto simp: fromJSON_def Let_def split: sum.splits if_splits)

lemma fromJSON_throws_iff:
  "threw (fromJSON E this doc d) = isl (constructViews (options this) (sv_views doc))"
  by (auto simp: fromJSON_def Let_def threw_def split: sum.splits if_splits)

lemma fromJSON_deferred:
  assumes "fromJSON E this doc True = Returns u this'"
  shows "\<exists>built. constructViews (options this) (sv_views doc) = Inr built \<and>
           inits this' = inits this \<and>
           timers this' = timers this @ [zip [nextRef this ..< nextRef this + length built] (map snd built)] \<and>
           store this' = fold (\<lambda>(r, panel) st. st(r := panel))
                (zip [nextRef this ..< nextRef this + length built] (map fst built)) (store this)"
  using assms
  by (auto simp: fromJSON_def Let_def layout_def split: sum.splits)

lemma deferred_order:
  assumes "fromJSON E this doc True = Returns u this'"
  shows "inits this' = inits this"
    and "timers this' = timers this @ [last (timers this')]"
    and "map fst (last (timers this')) = [nextRef this ..< nextRef this + length (sv_views doc)]"
    and "map (\<lambda>v. pf_id (store this' v)) (map fst (last (timers this'))) = map (\<lambda>v. d_id (sp_data v)) (sv_views doc)"
    and "map (\<lambda>q. ip_title (snd q)) (last (timers this')) = map (\<lambda>v. d_title (sp_data v)) (sv_views doc)"
proof -
  from fromJSON_deferred [OF assms] obtain built where
    cv: "constructViews (options this) (sv_views doc) = Inr built" and
    i: "inits this' = inits this" and
    t: "timers this' = timers this @ [zip [nextRef this ..< nextRef this + length built] (map snd built)]" and
    s: "store this' = fold (\<lambda>(r, panel) st. st(r := panel))
                (zip [nextRef this ..< nextRef this + length built] (map fst built)) (store this)"
    by blast
  let ?refs = "[nextRef this ..< nextRef this + length built]"
  have len: "length built = length (sv_views doc)" using cv by (rule constructViews_length)
  show "inits this' = inits this" by (rule i)
  show "timers this' = timers this @ [last (timers this')]" by (simp add: t)
  show "map fst (last (timers this')) = [nextRef this ..< nextRef this + length (sv_views doc)]"
    by (simp add: t len)
  have st: "store this' (?refs ! k) = fst (built ! k)" if "k < length built" for k
  proof -
    have "distinct ?refs" "length ?refs = length (map fst built)" "k < length ?refs"
      using that by simp_all
    from fold_upd_nth [OF this, of "\<lambda>r p old. p" "store this"] that show ?thesis
      unfolding s by simp
  qed
  show "map (\<lambda>v. pf_id (store this' v)) (map fst (last (timers this'))) = map (\<lambda>v. d_id (sp_data v)) (sv_views doc)"
  proof (rule nth_equalityI)
    show "length (map (\<lambda>v. pf_id (store this' v)) (map fst (last (timers this')))) = length (map (\<lambda>v. d_id (sp_data v)) (sv_views doc))"
      by (simp add: t len)
  next
    fix k assume "k < length (map (\<lambda>v. pf_id (store this' v)) (map fst (last (timers this'))))"
    then have k: "k < length built" by (simp add: t)
    obtain x p where b: "built ! k = (x, p)" by (cases "built ! k")
    from constructViews_nth [OF cv, of k] k len b
    have "constructView (options this) (sv_views doc ! k) = Inr (x, p)" by simp
    from constructView_fields [OF this] have "pf_id x = d_id (sp_data (sv_views doc ! k))" by simp
    moreover have "map fst (last (timers this')) ! k = ?refs ! k"
      using k by (simp add: t)
    ultimately show "map (\<lambda>v. pf_id (store this' v)) (map fst (last (timers this'))) ! k = map (\<lambda>v. d_id (sp_data v)) (sv_views doc) ! k"
      using k len b st [OF k] by (simp add: t)
  qed
  show "map (\<lambda>q. ip_title (snd q)) (last (timers this')) = map (\<lambda>v. d_title (sp_data v)) (sv_views doc)"
  proof (rule nth_equalityI)
    show "length (map (\<lambda>q. ip_title (snd q)) (last (timers this'))) = length (map (\<lambda>v. d_title (sp_data v)) (sv_views doc))"
      by (simp add: t len)
  next
    fix k assume "k < length (map (\<lambda>q. ip_title (snd q)) (last (timers this')))"
    then have k: "k < length built" by (simp add: t)
    obtain x p where b: "built ! k = (x, p)" by (cases "built ! k")
    from constructViews_nth [OF cv, of k] k len b
    have "constructView (options this) (sv_views doc ! k) = Inr (x, p)" by simp
    from constructView_fields [OF this] have "ip_title p = d_title (sp_data (sv_views doc ! k))" by simp
    then show "map (\<lambda>q. ip_title (snd q)) (last (timers this')) ! k = map (\<lambda>v. d_title (sp_data v)) (sv_views doc) ! k"
      using k len b by (simp add: t)
  qed
qed

lemma tick_single: "timers this = [q] \<Longrightarrow> inits (tick this) = inits this @ map fst q"
  by (simp add: tick_def runQueue_inits)

lemma orient_after: "orient (paneview (after (RefEngine D) el opts st cs)) = VERTICAL"
proof -
  have step: "orient (paneview (call (RefEngine D) s c)) = VERTICAL" if "orient (paneview s) = VERTICAL" for s c
  proof (cases c)
    case (Member m)
    then show ?thesis using that
      by (cases m)
         (auto simp: call_def perform_def addPanel_def final_def Let_def panelInit_def RefEngine_def
           Paneview_addPane_def movePanel_def Paneview_moveView_def removePanel_def Paneview_removePane_def
           split: sum.splits SizeArg.splits option.splits)
  next
    case (Layout w h)
    then show ?thesis using that by (simp add: call_def layout_def RefEngine_def Paneview_layout_def)
  next
    case ResizeToFit
    then show ?thesis using that
      by (simp add: call_def resizeToFit_def layout_def RefEngine_def Paneview_layout_def split: option.splits)
  next
    case (FromJSON doc d)
    then show ?thesis using that
      by (auto simp: call_def fromJSON_def final_def Let_def layout_def RefEngine_def width_def height_def
          Paneview_layout_def Paneview_new_def Paneview_dispose_def runQueue_paneview split: sum.splits)
  next
    case Tick
    then show ?thesis using that
      by (simp add: call_def tick_def runQueue_paneview split: list.splits)
  qed
  have "orient (paneview (foldl (call (RefEngine D)) s cs)) = VERTICAL" if "orient (paneview s) = VERTICAL" for s
    using that by (induction cs arbitrary: s) (auto intro: step)
  then show ?thesis
    unfolding after_def
    by (simp add: PaneviewComponent_new_def Let_def RefEngine_def Paneview_new_def)
qed

section \<open>The concrete orchestrators, evaluated\<close>

lemmas example_defs = twoPanels_def reached_def perform_def addPanel_def PaneviewComponent_new_def
  exEngine_def RefEngine_def exOptions_def detached_def blank_def panelOne_def panelTwo_def
  createComponent_def orEmpty_def headerPart_def truthy_def panelInit_def PaneviewPanel_init_def
  PaneFramework_new_def getHeaderComponent_def DefaultHeader_new_def DefaultHeader_init_def
  Paneview_new_def Paneview_addPane_def spliceStart_def distributeViewSizes_def
  final_def Let_def

lemma twoPanels_paneview:
  "paneview twoPanels =
     \<lparr>panes = [(0, 0), (1, 100)], extent = 0, orthogonal = 0, orient = VERTICAL, disposed = False\<rparr>"
  by (simp add: example_defs)

lemma twoPanels_fields:
  "element twoPanels = detached" "nextRef twoPanels = 2" "inits twoPanels = [0, 1]"
  "timers twoPanels = []"
  "options twoPanels = exOptions\<lparr>frameworkComponents := Some Map.empty\<rparr>"
  by (simp_all add: example_defs)

lemma twoPanels_store:
  "store twoPanels 0 =
     \<lparr>pf_id = ''p1'', pf_component = ''text'', pf_headerComponent = None,
      pf_body = PlainRenderer ''p1'' ''text'' 1,
      pf_header = Default \<lparr>apiRef = Some (PanePanelApi 0), textContent = ''One''\<rparr>,
      pf_orientation = VERTICAL, pf_title = ''One'', pf_params = [],
      pf_minimumBodySize = None, pf_maximumBodySize = None, pf_expanded = False\<rparr>"
  "store twoPanels (Suc 0) =
     \<lparr>pf_id = ''p2'', pf_component = ''text'', pf_headerComponent = None,
      pf_body = PlainRenderer ''p2'' ''text'' 1,
      pf_header = Default \<lparr>apiRef = Some (PanePanelApi 1), textContent = ''Two''\<rparr>,
      pf_orientation = VERTICAL, pf_title = ''Two'', pf_params = [(''k'', ''v'')],
      pf_minimumBodySize = Some 10, pf_maximumBodySize = None, pf_expanded = True\<rparr>"
  by (simp_all add: example_defs)

lemma twoPanels_getPanels: "getPanels exEngine twoPanels = [0, 1]"
  by (simp add: getPanels_def twoPanels_paneview exEngine_def RefEngine_def Paneview_getPanes_def)

lemma returned: "\<not> threw r \<Longrightarrow> r = Returns () (final r)"
  by (cases r) (simp_all add: threw_def final_def)

lemma twoPanels_sound: "sound twoPanels"
  unfolding twoPanels_def exEngine_def by (rule sound_reached)

lemma twoPanels_rebuilds:
  "\<not> threw (fromJSON exEngine twoPanels (toJSON exEngine twoPanels) d)"
proof -
  have "list_all (\<lambda>(v, z). resolvable (options twoPanels) (store twoPanels v))
          (panes (paneview twoPanels))"
    using twoPanels_sound by (simp add: sound_def list_all_iff split_def)
  from roundtrip_core [OF this, of splitEvenly]
  have "\<not> threw (fromJSON exEngine twoPanels (toJSON exEngine twoPanels) False)"
    by (simp add: exEngine_def)
  then show ?thesis by (simp add: fromJSON_throws_iff)
qed

section \<open>The claims\<close>

text \<open>
  Claim C1: \<open>removePanel\<close> with a reference that is not in the panel sequence is a
  no-op. The code does not hold it: \<open>removePanel\<close> hands the result of \<open>findIndex\<close>
  to \<open>removePane\<close> untested, so for a reference that is not among the panes it asks
  the engine, whichever it is, to remove at the index \<open>-1\<close>. On the orchestrator
  whose panels are 0 and 1, over the reference engine, removing the foreign reference
  7 removes panel 1, and removing panel 0 a second time removes panel 1 as well.
\<close>

theorem removePanel_absent_removes_at_minus_one:
  "(panel \<notin> set (getPanels E this) \<longrightarrow>
      removePanel E this panel = this\<lparr>paneview := pv_removePane E (paneview this) (- 1)\<rparr>) \<and>
   getPanels exEngine twoPanels = [0, 1] \<and>
   getPanels exEngine (removePanel exEngine twoPanels 7) = [0] \<and>
   getPanels exEngine (removePanel exEngine twoPanels 0) = [1] \<and>
   getPanels exEngine (removePanel exEngine (removePanel exEngine twoPanels 0) 0) = []"
proof -
  have "getPanels exEngine twoPanels = [0, 1] \<and>
    getPanels exEngine (removePanel exEngine twoPanels 7) = [0] \<and>
    getPanels exEngine (removePanel exEngine twoPanels 0) = [1] \<and>
    getPanels exEngine (removePanel exEngine (removePanel exEngine twoPanels 0) 0) = []"
    by (simp add: getPanels_def removePanel_def twoPanels_paneview exEngine_def RefEngine_def
        Paneview_getPanes_def Paneview_removePane_def spliceStart_def findIndex_def Let_def)
  then show ?thesis
    using removePanel_absent [of panel E this] by blast
qed

theorem removePanel_absent_removes_at_minus_one_witness:
  "7 \<notin> set (getPanels exEngine twoPanels) \<and>
   removePanel exEngine twoPanels 7 =
     twoPanels\<lparr>paneview := Paneview_removePane (paneview twoPanels) (- 1)\<rparr> \<and>
   panes (Paneview_removePane (paneview twoPanels) (- 1)) = [(0, 0)]"
proof -
  have h: "7 \<notin> set (getPanels exEngine twoPanels)"
    by (simp add: twoPanels_getPanels)
  from removePanel_absent_removes_at_minus_one [of 7 exEngine twoPanels, THEN conjunct1,
      rule_format, OF h]
  have "removePanel exEngine twoPanels 7 =
          twoPanels\<lparr>paneview := pv_removePane exEngine (paneview twoPanels) (- 1)\<rparr>" .
  with h show ?thesis
    by (simp add: exEngine_def RefEngine_def twoPanels_paneview Paneview_removePane_def
        spliceStart_def)
qed

text \<open>
  Claim C2, as the spec states it: when the construction of a panel fails, the
  orchestrator still holds its previous valid state. It fails on the document
  \<open>badDoc\<close>: \<open>fromJSON\<close> throws, and the engine the orchestrator is left with, which
  was not disposed before the call, is disposed after it.
\<close>

theorem fromJSON_failure_leaves_disposed_engine:
  "threw (fromJSON exEngine twoPanels badDoc False) \<and>
   \<not> disposed (paneview twoPanels) \<and>
   disposed (paneview (final (fromJSON exEngine twoPanels badDoc False)))"
  by (simp add: fromJSON_def twoPanels_paneview twoPanels_fields badDoc_def constructView_def
      createComponent_def exOptions_def orEmpty_def exEngine_def RefEngine_def Paneview_dispose_def
      threw_def final_def Let_def)

text \<open>
  Claim C2, amended: \<open>fromJSON\<close> disposes the previous Layout Engine before it
  constructs the new generation. It throws exactly when the construction of a panel
  of the document fails, and then the orchestrator is left as it was but for its
  engine, which is the previous engine, disposed: no new engine is installed, no
  panel is allocated or initialized, and nothing is scheduled.
\<close>

theorem fromJSON_throws_after_dispose:
  "threw (fromJSON E this doc d) = isl (constructViews (options this) (sv_views doc)) \<and>
   (fromJSON E this doc d = Throws err s \<longrightarrow>
      s = this\<lparr>paneview := pv_dispose E (paneview this)\<rparr> \<and>
      constructViews (options this) (sv_views doc) = Inl err)"
  using fromJSON_throws [of E this doc d err s] fromJSON_throws_iff [of E this doc d]
  by blast

theorem fromJSON_throws_after_dispose_witness:
  "fromJSON exEngine twoPanels badDoc False =
     Throws (ResolutionError ''missing'') (twoPanels\<lparr>paneview := Paneview_dispose (paneview twoPanels)\<rparr>)"
proof -
  have h: "fromJSON exEngine twoPanels badDoc False =
             Throws (ResolutionError ''missing'') (final (fromJSON exEngine twoPanels badDoc False))"
    by (simp add: fromJSON_def twoPanels_fields badDoc_def constructView_def createComponent_def
        exOptions_def orEmpty_def final_def Let_def)
  from fromJSON_throws_after_dispose [THEN conjunct2, rule_format, OF h]
  have "final (fromJSON exEngine twoPanels badDoc False) =
          twoPanels\<lparr>paneview := pv_dispose exEngine (paneview twoPanels)\<rparr>"
    by simp
  with h show ?thesis by (simp add: exEngine_def RefEngine_def)
qed

text \<open>
  Claim C3: for every state reached by a finite sequence of \<open>addPanel\<close>, \<open>movePanel\<close>
  and \<open>removePanel\<close>, \<open>fromJSON(toJSON())\<close> with synchronous initialization does not
  throw, and \<open>toJSON()\<close> after it is the document \<open>toJSON()\<close> gave before: the same
  size, and the same views in the same order, each with the same size, bounds,
  expansion flag and data (id, kinds, title and params). The document has one view per
  live panel, in the order of the panels. Pixel sizes are integers here, so the sizes
  are equal exactly. The Layout Engine is the reference engine, with any pixel
  distribution \<open>D\<close>.
\<close>

theorem toJSON_fromJSON_roundtrip:
  "(let E = RefEngine D;
        this = reached E el opts st ms;
        doc = toJSON E this;
        r = fromJSON E this doc False
    in \<not> threw r \<and>
       toJSON E (final r) = doc \<and>
       length (sv_views doc) = length (getPanels E this) \<and>
       map (\<lambda>v. d_id (sp_data v)) (sv_views doc) =
         map (\<lambda>view. pf_id (store this view)) (getPanels E this))"
proof -
  let ?E = "RefEngine D"
  let ?s = "reached ?E el opts st ms"
  have "sound ?s" by (rule sound_reached)
  then have "list_all (\<lambda>(v, z). resolvable (options ?s) (store ?s v)) (panes (paneview ?s))"
    by (auto simp: sound_def list_all_iff)
  from roundtrip_core [OF this, of D]
  have "\<not> threw (fromJSON ?E ?s (toJSON ?E ?s) False)"
    and "toJSON ?E (final (fromJSON ?E ?s (toJSON ?E ?s) False)) = toJSON ?E ?s"
    by simp_all
  moreover have "length (sv_views (toJSON ?E ?s)) = length (getPanels ?E ?s)"
    using arg_cong [OF toJSON_data [of ?E ?s], of length] by simp
  moreover have "map (\<lambda>v. d_id (sp_data v)) (sv_views (toJSON ?E ?s)) =
      map (\<lambda>view. pf_id (store ?s view)) (getPanels ?E ?s)"
    using arg_cong [OF toJSON_data [of ?E ?s], of "map d_id"]
    by (simp add: comp_def PaneviewPanel_toJSON_def)
  ultimately show ?thesis by (simp add: Let_def)
qed

theorem toJSON_fromJSON_roundtrip_witness:
  "toJSON exEngine (final (fromJSON exEngine twoPanels (toJSON exEngine twoPanels) False))
     = toJSON exEngine twoPanels \<and>
   map (\<lambda>v. d_id (sp_data v)) (sv_views (toJSON exEngine twoPanels)) = [''p1'', ''p2'']"
  using toJSON_fromJSON_roundtrip
    [of splitEvenly detached exOptions "\<lambda>r. blank" "[AddPanel panelOne, AddPanel panelTwo]"]
  by (simp add: Let_def exEngine_def [symmetric] twoPanels_def [symmetric] twoPanels_getPanels
      twoPanels_store)

text \<open>
  Claim C4: when \<open>fromJSON\<close> is called with \<open>deferComponentLayout = true\<close> and
  returns, no panel's \<open>init\<close> has run yet; one callback was scheduled, after those
  already pending; it initializes the panels built from the views of the document,
  once each, in the order of the views (the panel at the k-th position has the id and
  gets the title of the k-th view); whenever the host runs it, it runs exactly these
  \<open>init\<close> calls in this order, and with nothing else pending that is the next turn.
\<close>

theorem fromJSON_deferred_init_order:
  "fromJSON E this doc True = Returns u this' \<Longrightarrow>
     inits this' = inits this \<and>
     timers this' = timers this @ [last (timers this')] \<and>
     map fst (last (timers this')) = [nextRef this ..< nextRef this + length (sv_views doc)] \<and>
     distinct (map fst (last (timers this'))) \<and>
     map (\<lambda>view. pf_id (store this' view)) (map fst (last (timers this')))
       = map (\<lambda>v. d_id (sp_data v)) (sv_views doc) \<and>
     map (\<lambda>q. ip_title (snd q)) (last (timers this'))
       = map (\<lambda>v. d_title (sp_data v)) (sv_views doc) \<and>
     (\<forall>s :: 'e PaneviewComponent.
        inits (runQueue (last (timers this')) s) = inits s @ map fst (last (timers this'))) \<and>
     (timers this = [] \<longrightarrow>
        inits (tick this') = inits this @ [nextRef this ..< nextRef this + length (sv_views doc)])"
proof -
  assume h: "fromJSON E this doc True = Returns u this'"
  note d = deferred_order [OF h]
  have "timers this = [] \<longrightarrow>
        inits (tick this') = inits this @ [nextRef this ..< nextRef this + length (sv_views doc)]"
  proof
    assume "timers this = []"
    with d(2) have "timers this' = [last (timers this')]" by simp
    from tick_single [OF this] show
      "inits (tick this') = inits this @ [nextRef this ..< nextRef this + length (sv_views doc)]"
      by (simp add: d(1) d(3))
  qed
  moreover have "distinct (map fst (last (timers this')))"
    by (simp add: d(3))
  ultimately show ?thesis
    using d by (simp add: runQueue_inits)
qed

theorem fromJSON_deferred_init_order_witness:
  "inits (final (fromJSON exEngine twoPanels (toJSON exEngine twoPanels) True)) = [0, 1] \<and>
   inits (tick (final (fromJSON exEngine twoPanels (toJSON exEngine twoPanels) True))) = [0, 1, 2, 3]"
proof -
  have h: "fromJSON exEngine twoPanels (toJSON exEngine twoPanels) True =
             Returns () (final (fromJSON exEngine twoPanels (toJSON exEngine twoPanels) True))"
    by (rule returned [OF twoPanels_rebuilds])
  have n: "length (sv_views (toJSON exEngine twoPanels)) = 2"
    using arg_cong [OF toJSON_data [of exEngine twoPanels], of length]
    by (simp add: twoPanels_getPanels)
  have u: "[2 ..< 4] = [2, 3 :: nat]" by (simp add: upt_rec)
  from fromJSON_deferred_init_order [OF h]
  have "inits (final (fromJSON exEngine twoPanels (toJSON exEngine twoPanels) True))
          = inits twoPanels"
    and "timers twoPanels = [] \<longrightarrow>
         inits (tick (final (fromJSON exEngine twoPanels (toJSON exEngine twoPanels) True)))
           = inits twoPanels @ [nextRef twoPanels ..<
               nextRef twoPanels + length (sv_views (toJSON exEngine twoPanels))]"
    by blast+
  then show ?thesis
    by (simp add: twoPanels_fields n u)
qed

text \<open>
  Claim C5: when \<open>addPanel\<close> returns, the engine is the one \<open>addPane\<close> gives for the
  new panel (which has the id and the body kind of the descriptor), with the explicit
  pixel size when \<open>descriptor.size\<close> is a number and the distribute-evenly mode
  otherwise, and with \<open>descriptor.index\<close> as it is: the number, or absent.
\<close>

theorem addPanel_forwards_size_and_index:
  "addPanel E this opts = Returns h this' \<Longrightarrow>
     paneview this' =
       pv_addPane E (paneview this) (nextRef this)
         (case ao_size opts of Some n \<Rightarrow> Number n | None \<Rightarrow> Mode Distribute)
         (ao_index opts) \<and>
     pf_id (store this' (nextRef this)) = ao_id opts \<and>
     pf_component (store this' (nextRef this)) = ao_component opts"
  using addPanel_paneview [of E this opts h this'] addPanel_panel [of E this opts h this']
  by simp

theorem addPanel_forwards_size_and_index_witness:
  "paneview (final (addPanel exEngine twoPanels panelTwo)) =
     Paneview_addPane (paneview twoPanels) 2 (Number 100) None \<and>
   paneview (final (addPanel exEngine twoPanels (panelOne\<lparr>ao_index := Some 0\<rparr>))) =
     Paneview_addPane (paneview twoPanels) 2 (Mode Distribute) (Some 0)"
proof -
  have h2: "addPanel exEngine twoPanels panelTwo =
              Returns \<lparr>dispose = (\<lambda>s. s)\<rparr> (final (addPanel exEngine twoPanels panelTwo))"
    by (simp add: addPanel_def twoPanels_fields exOptions_def panelTwo_def createComponent_def
        orEmpty_def headerPart_def truthy_def final_def Let_def)
  have h1: "addPanel exEngine twoPanels (panelOne\<lparr>ao_index := Some 0\<rparr>) =
              Returns \<lparr>dispose = (\<lambda>s. s)\<rparr>
                (final (addPanel exEngine twoPanels (panelOne\<lparr>ao_index := Some 0\<rparr>)))"
    by (simp add: addPanel_def twoPanels_fields exOptions_def panelOne_def createComponent_def
        orEmpty_def headerPart_def truthy_def final_def Let_def)
  from addPanel_forwards_size_and_index [OF h2] addPanel_forwards_size_and_index [OF h1]
  show ?thesis
    by (simp add: twoPanels_fields panelOne_def panelTwo_def exEngine_def RefEngine_def)
qed

text \<open>
  Claim C6: \<open>layout(width, height)\<close> forwards to the engine the pair (width, height)
  when the engine's orientation is horizontal and the pair (height, width) when it is
  vertical. After any sequence of calls on a constructed orchestrator the engine is
  vertical (the constructor and \<open>fromJSON\<close> make no other), so \<open>layout\<close> forwards
  (height, width).
\<close>

theorem layout_swaps_axes_by_orientation:
  "(pv_orientation E (paneview this) = HORIZONTAL \<longrightarrow>
      layout E this w h = this\<lparr>paneview := pv_layout E (paneview this) w h\<rparr>) \<and>
   (pv_orientation E (paneview this) = VERTICAL \<longrightarrow>
      layout E this w h = this\<lparr>paneview := pv_layout E (paneview this) h w\<rparr>) \<and>
   orient (paneview (after (RefEngine D) el opts st cs)) = VERTICAL \<and>
   layout (RefEngine D) (after (RefEngine D) el opts st cs) w h =
     (after (RefEngine D) el opts st cs)
       \<lparr>paneview := Paneview_layout D (paneview (after (RefEngine D) el opts st cs)) h w\<rparr>"
  using orient_after [of D el opts st cs]
  by (simp add: layout_def RefEngine_def)

theorem layout_swaps_axes_by_orientation_witness:
  "layout exEngine sideways 300 600 =
     sideways\<lparr>paneview := Paneview_layout splitEvenly (paneview sideways) 300 600\<rparr> \<and>
   layout exEngine twoPanels 300 600 =
     twoPanels\<lparr>paneview := Paneview_layout splitEvenly (paneview twoPanels) 600 300\<rparr> \<and>
   extent (paneview (layout exEngine twoPanels 300 600)) = 600"
proof -
  have hs: "pv_orientation exEngine (paneview sideways) = HORIZONTAL"
    by (simp add: sideways_def exEngine_def RefEngine_def)
  have hv: "pv_orientation exEngine (paneview twoPanels) = VERTICAL"
    by (simp add: twoPanels_paneview exEngine_def RefEngine_def)
  note t = layout_swaps_axes_by_orientation [where D = splitEvenly and el = detached
      and opts = exOptions and st = "\<lambda>r. blank" and cs = "[]" and w = 300 and h = 600]
  from t [of exEngine sideways, THEN conjunct1, rule_format, OF hs]
       t [of exEngine twoPanels, THEN conjunct2, THEN conjunct1, rule_format, OF hv]
  show ?thesis
    by (simp add: exEngine_def RefEngine_def Paneview_layout_def)
qed

text \<open>
  Claim C7: when the root element has no parent element, \<open>resizeToFit\<close> leaves the
  orchestrator as it is, whatever the engine's \<open>layout\<close> would do; there is no
  bounding box it could read.
\<close>

theorem resizeToFit_detached_noop:
  "parentElement (element this) = None \<Longrightarrow> resizeToFit E this = this"
  by (simp add: resizeToFit_def)

theorem resizeToFit_detached_noop_witness:
  "parentElement (element twoPanels) = None \<and> resizeToFit exEngine twoPanels = twoPanels"
proof -
  have h: "parentElement (element twoPanels) = None"
    by (simp add: twoPanels_fields detached_def)
  from h resizeToFit_detached_noop [OF h] show ?thesis by simp
qed

text \<open>
  Claim C8: \<open>toJSON\<close> emits one view per panel of the engine, in the engine's order;
  the data of each view is its panel's \<open>toJSON()\<close>; the size of the i-th view is
  \<open>getViewSize(i)\<close> of the engine, so that it stays the same whatever the panels hold;
  and the size of the document is the engine's \<open>size\<close>.
\<close>

theorem toJSON_reads_engine_sizes:
  "length (sv_views (toJSON E this)) = length (getPanels E this) \<and>
   map sp_data (sv_views (toJSON E this)) =
     map (\<lambda>view. PaneviewPanel_toJSON (store this view)) (getPanels E this) \<and>
   map sp_size (sv_views (toJSON E this)) =
     map (pv_getViewSize E (paneview this)) [0..<length (getPanels E this)] \<and>
   map sp_size (sv_views (toJSON E (this\<lparr>store := st'\<rparr>))) = map sp_size (sv_views (toJSON E this)) \<and>
   sv_size (toJSON E this) = pv_size E (paneview this)"
proof -
  have "length (sv_views (toJSON E this)) = length (getPanels E this)"
    using arg_cong [OF toJSON_data [of E this], of length] by simp
  moreover have "map sp_size (sv_views (toJSON E (this\<lparr>store := st'\<rparr>))) =
      map sp_size (sv_views (toJSON E this))"
    by (simp add: toJSON_sizes getPanels_def)
  moreover have "sv_size (toJSON E this) = pv_size E (paneview this)"
    by (simp add: toJSON_def Let_def)
  ultimately show ?thesis
    using toJSON_data [of E this] toJSON_sizes [of E this] by simp
qed

theorem toJSON_reads_engine_sizes_witness:
  "map sp_size (sv_views (toJSON exEngine twoPanels)) = [0, 100] \<and>
   sv_size (toJSON exEngine twoPanels) = 0"
proof -
  have u: "[0 ..< 2] = [0, 1 :: nat]" by (simp add: upt_rec)
  have g: "pv_getViewSize exEngine = Paneview_getViewSize" "pv_size exEngine = extent"
    by (simp_all add: exEngine_def RefEngine_def)
  from toJSON_reads_engine_sizes [of exEngine twoPanels "store twoPanels"] show ?thesis
    by (simp add: twoPanels_getPanels u g twoPanels_paneview Paneview_getViewSize_def)
qed

text \<open>
  Claim C9: a click on a Default header whose reference to the control surface is
  still null (a new header, before \<open>init\<close>) touches nothing: it makes no access to a
  control surface and leaves the store as it is. A click after \<open>init\<close> reads the
  expansion flag from the control surface that \<open>init\<close> was given and writes its
  negation back.
\<close>

theorem defaultHeader_click_toggles_after_init:
  "DefaultHeader_click DefaultHeader_new st = ([], st) \<and>
   DefaultHeader_click (DefaultHeader_update DefaultHeader_new) st = ([], st) \<and>
   DefaultHeader_click (h\<lparr>apiRef := None\<rparr>) st = ([], st) \<and>
   DefaultHeader_click (DefaultHeader_init h p api) st =
     ([GetExpanded api, SetExpanded api (\<not> PanePanelApi_isExpanded api st)],
      PanePanelApi_setExpanded api (\<not> PanePanelApi_isExpanded api st) st) \<and>
   PanePanelApi_isExpanded api (snd (DefaultHeader_click (DefaultHeader_init h p api) st))
     = (\<not> PanePanelApi_isExpanded api st)"
  by (cases api)
     (simp add: DefaultHeader_click_def DefaultHeader_init_def DefaultHeader_new_def
       DefaultHeader_update_def Let_def PanePanelApi_isExpanded_def PanePanelApi_setExpanded_def
       isExpanded_def)

theorem defaultHeader_click_toggles_after_init_witness:
  "DefaultHeader_click DefaultHeader_new (store twoPanels) = ([], store twoPanels) \<and>
   fst (DefaultHeader_click
          (DefaultHeader_init DefaultHeader_new
             \<lparr>ip_params = [], ip_minimumBodySize = None, ip_maximumBodySize = None,
              ip_isExpanded = None, ip_title = ''One'', ip_containerApi = PaneviewApi\<rparr>
             (PanePanelApi 0))
          (store twoPanels))
     = [GetExpanded (PanePanelApi 0), SetExpanded (PanePanelApi 0) True]"
  using defaultHeader_click_toggles_after_init
    [where st = "store twoPanels" and h = DefaultHeader_new and api = "PanePanelApi 0"
       and p = "\<lparr>ip_params = [], ip_minimumBodySize = None, ip_maximumBodySize = None,
        ip_isExpanded = None, ip_title = ''One'', ip_containerApi = PaneviewApi\<rparr>"]
  by (simp add: PanePanelApi_isExpanded_def isExpanded_def twoPanels_store)

text \<open>
  Claim C10: the handle \<open>addPanel\<close> returns does nothing when it is disposed: it
  leaves every state as it is, so the panel stays in the engine and in the store.
\<close>

theorem addPanel_dispose_handle_noop:
  "addPanel E this opts = Returns h this' \<Longrightarrow> dispose h s = s"
  using addPanel_handle [of E this opts h this'] by simp

theorem addPanel_dispose_handle_noop_witness:
  "dispose \<lparr>dispose = (\<lambda>s. s)\<rparr> (final (addPanel exEngine twoPanels panelTwo))
     = final (addPanel exEngine twoPanels panelTwo)"
proof -
  have h: "addPanel exEngine twoPanels panelTwo =
             Returns \<lparr>dispose = (\<lambda>s. s)\<rparr> (final (addPanel exEngine twoPanels panelTwo))"
    by (simp add: addPanel_def twoPanels_fields exOptions_def panelTwo_def createComponent_def
        orEmpty_def headerPart_def truthy_def final_def Let_def)
  from addPanel_dispose_handle_noop [OF h] show ?thesis .
qed

end
